theory Spec2Isabelle
  imports Main "HOL-Library.Word"
begin

section \<open>Python values, exceptions and the outside world\<close>

text \<open>
  The agent is dynamically typed: whatever \<open>json.loads\<close> or Flask's \<open>get_json\<close> hands
  over flows unchecked into the result.  \<open>pyval\<close> is the type of these values.  A dict is
  an association list read with \<open>map_of\<close>; a float is its IEEE 754 bit pattern.  A Python
  \<open>str\<close> is a \<open>string\<close>, so the embedding covers texts whose code points are below 256.
\<close>

datatype pyval =
    PNone
  | PBool bool
  | PInt int
  | PFloat "64 word"
  | PStr string
  | PList "pyval list"
  | PDict "(string \<times> pyval) list"

text \<open>An exception is its class name and the text that \<open>str(e)\<close> gives.\<close>

datatype exn = Exn (exn_class: string) (exn_str: string)

text \<open>What \<open>requests\<close> returns: only the status code and the decoded body (\<open>response.text\<close>) are read.\<close>

record response =
  status_code :: int
  body_text :: string

text \<open>A content block of the reasoning service's message; only a text block has \<open>.text\<close>.\<close>

datatype block = TextBlock string | OtherBlock string

text \<open>
  Library calls whose code is not part of the repository are parameters: the two
  \<open>requests\<close> calls, \<open>Response.raise_for_status\<close> (\<open>Some e\<close> when it raises \<open>e\<close>),
  \<open>client.messages.create\<close> (model, max_tokens, system, user message; returns
  \<open>message.content\<close>), \<open>json.loads\<close>, and the text that an f-string gives for a value
  that is not a \<open>str\<close>.
\<close>

record env =
  requests_head :: "pyval \<Rightarrow> exn + response"
  requests_get :: "pyval \<Rightarrow> exn + response"
  raise_for_status :: "response \<Rightarrow> exn option"
  messages_create :: "string \<Rightarrow> nat \<Rightarrow> string \<Rightarrow> string \<Rightarrow> exn + block list"
  json_loads :: "string \<Rightarrow> exn + pyval"
  py_repr :: "pyval \<Rightarrow> string"

text \<open>
  Every function that talks to the network also returns the calls it made, in order:
  \<open>HeadReq url timeout allow_redirects\<close>, \<open>GetReq url timeout\<close>,
  \<open>CreateReq model max_tokens system user\<close>.  Output written with \<open>print\<close> is not modelled.
\<close>

datatype event =
    HeadReq pyval nat bool
  | GetReq pyval nat
  | CreateReq string nat string string

section \<open>Built-in operations of Python\<close>

text \<open>\<open>type(v).__name__\<close>, as it appears in the messages of the interpreter.\<close>

fun type_name :: "pyval \<Rightarrow> string" where
  "type_name PNone = ''NoneType''"
| "type_name (PBool b) = ''bool''"
| "type_name (PInt i) = ''int''"
| "type_name (PFloat w) = ''float''"
| "type_name (PStr s) = ''str''"
| "type_name (PList xs) = ''list''"
| "type_name (PDict kvs) = ''dict''"

text \<open>Truth value of a value, as \<open>or\<close> and \<open>not\<close> test it; a float is false when it is +0.0 or -0.0.\<close>

fun truthy :: "pyval \<Rightarrow> bool" where
  "truthy PNone = False"
| "truthy (PBool b) = b"
| "truthy (PInt i) = (i \<noteq> 0)"
| "truthy (PFloat w) = (push_bit 1 w \<noteq> 0)"
| "truthy (PStr s) = (s \<noteq> [])"
| "truthy (PList xs) = (xs \<noteq> [])"
| "truthy (PDict kvs) = (kvs \<noteq> [])"

text \<open>\<open>sub in s\<close> on strings: \<open>sub\<close> occurs in \<open>s\<close> as a contiguous run.\<close>

fun is_prefix :: "string \<Rightarrow> string \<Rightarrow> bool" where
  "is_prefix [] s = True"
| "is_prefix (a # as) [] = False"
| "is_prefix (a # as) (c # cs) = (a = c \<and> is_prefix as cs)"

fun contains :: "string \<Rightarrow> string \<Rightarrow> bool" where
  "contains sub [] = (sub = [])"
| "contains sub (c # cs) = (is_prefix sub (c # cs) \<or> contains sub cs)"

text \<open>
  \<open>str.lower()\<close> on code points below 256: the ASCII capitals and the Latin-1 capitals
  (0xC0..0xDE without the multiplication sign 0xD7) move up by 32.
\<close>

definition lower_char :: "char \<Rightarrow> char" where
  "lower_char c =
    (let n = (of_char c :: nat) in
     if (65 \<le> n \<and> n \<le> 90) \<or> (192 \<le> n \<and> n \<le> 222 \<and> n \<noteq> 215)
     then char_of (n + 32) else c)"

definition lower :: "string \<Rightarrow> string" where
  "lower s = map lower_char s"

text \<open>\<open>str.isspace\<close> on one code point below 256, and \<open>str.strip()\<close>.\<close>

definition is_space :: "char \<Rightarrow> bool" where
  "is_space c =
    (let n = (of_char c :: nat) in
     (9 \<le> n \<and> n \<le> 13) \<or> (28 \<le> n \<and> n \<le> 32) \<or> n = 133 \<or> n = 160)"

definition rstrip :: "string \<Rightarrow> string" where
  "rstrip s = rev (dropWhile is_space (rev s))"

definition strip :: "string \<Rightarrow> string" where
  "strip s = dropWhile is_space (rstrip s)"

text \<open>
  \<open>s.split(sep)\<close> for a non-empty separator: the pieces between the occurrences of
  \<open>sep\<close>, found from the left without overlap.  The result always has a first piece.
\<close>

function split :: "string \<Rightarrow> string \<Rightarrow> string list" where
  "split sep [] = [[]]"
| "split sep (c # cs) =
    (if sep \<noteq> [] \<and> is_prefix sep (c # cs)
     then [] # split sep (drop (length sep) (c # cs))
     else (case split sep cs of
             [] \<Rightarrow> [[c]]
           | p # ps \<Rightarrow> (c # p) # ps))"
  by pat_completeness auto
termination
  by (relation "measure (\<lambda>(sep, s). length s)") (auto simp: neq_Nil_conv)

text \<open>\<open>xs[i]\<close> on a list; out of range raises \<open>IndexError\<close>.\<close>

definition index :: "'a list \<Rightarrow> nat \<Rightarrow> exn + 'a" where
  "index xs i =
    (if i < length xs then Inr (xs ! i)
     else Inl (Exn ''IndexError'' ''list index out of range''))"

text \<open>\<open>d.get(key, default)\<close>; a value that is not a dict has no \<open>get\<close>.\<close>

definition no_attribute :: "pyval \<Rightarrow> string \<Rightarrow> exn" where
  "no_attribute v a =
    Exn ''AttributeError''
      ([CHR 0x27] @ type_name v @ [CHR 0x27] @ '' object has no attribute '' @
       [CHR 0x27] @ a @ [CHR 0x27])"

fun get :: "pyval \<Rightarrow> string \<Rightarrow> pyval \<Rightarrow> exn + pyval" where
  "get (PDict kvs) k d = Inr (case map_of kvs k of Some v \<Rightarrow> v | None \<Rightarrow> d)"
| "get v k d = Inl (no_attribute v ''get'')"

text \<open>
  \<open>v[:100]\<close>: a string and a list can be sliced; a dict looks the slice up as a key
  (CPython 3.12, where a slice is hashable) and the other values are not subscriptable.
\<close>

fun slice_to :: "pyval \<Rightarrow> nat \<Rightarrow> exn + pyval" where
  "slice_to (PStr s) n = Inr (PStr (take n s))"
| "slice_to (PList xs) n = Inr (PList (take n xs))"
| "slice_to (PDict kvs) n = Inl (Exn ''KeyError'' ''slice(None, 100, None)'')"
| "slice_to v n =
    Inl (Exn ''TypeError''
      ([CHR 0x27] @ type_name v @ [CHR 0x27] @ '' object is not subscriptable''))"

text \<open>\<open>str(v)\<close> inside an f-string: a \<open>str\<close> is itself.\<close>

fun format_value :: "env \<Rightarrow> pyval \<Rightarrow> string" where
  "format_value E (PStr s) = s"
| "format_value E v = py_repr E v"

text \<open>\<open>sep.join(xs)\<close>.\<close>

fun join :: "string \<Rightarrow> string list \<Rightarrow> string" where
  "join sep [] = []"
| "join sep [x] = x"
| "join sep (x # y # ys) = x @ sep @ join sep (y # ys)"

text \<open>
  \<open>for x in v\<close>: the elements of a list, the characters of a string, the keys of a dict
  (the association list of a dict has each key once); nothing else can be iterated.
\<close>

fun iterate :: "pyval \<Rightarrow> exn + pyval list" where
  "iterate (PList xs) = Inr xs"
| "iterate (PStr s) = Inr (map (\<lambda>c. PStr [c]) s)"
| "iterate (PDict kvs) = Inr (map (\<lambda>kv. PStr (fst kv)) kvs)"
| "iterate v =
    Inl (Exn ''TypeError''
      ([CHR 0x27] @ type_name v @ [CHR 0x27] @ '' object is not iterable''))"

text \<open>\<open>key in v\<close> for a string \<open>key\<close>.\<close>

fun py_in :: "string \<Rightarrow> pyval \<Rightarrow> exn + bool" where
  "py_in k (PDict kvs) = Inr (map_of kvs k \<noteq> None)"
| "py_in k (PList xs) = Inr (List.member xs (PStr k))"
| "py_in k (PStr s) = Inr (contains k s)"
| "py_in k v =
    Inl (Exn ''TypeError''
      (''argument of type '' @ [CHR 0x27] @ type_name v @ [CHR 0x27] @ '' is not iterable''))"

text \<open>\<open>v[key]\<close> for a string \<open>key\<close>.\<close>

fun getitem :: "pyval \<Rightarrow> string \<Rightarrow> exn + pyval" where
  "getitem (PDict kvs) k =
    (case map_of kvs k of
       Some v \<Rightarrow> Inr v
     | None \<Rightarrow> Inl (Exn ''KeyError'' ([CHR 0x27] @ k @ [CHR 0x27])))"
| "getitem (PList xs) k =
    Inl (Exn ''TypeError'' ''list indices must be integers or slices, not str'')"
| "getitem (PStr s) k =
    Inl (Exn ''TypeError''
      (''string indices must be integers, not '' @ [CHR 0x27] @ ''str'' @ [CHR 0x27]))"
| "getitem v k =
    Inl (Exn ''TypeError''
      ([CHR 0x27] @ type_name v @ [CHR 0x27] @ '' object is not subscriptable''))"

text \<open>Sequencing inside a \<open>try\<close> block: the first exception ends the block.\<close>

definition try_bind :: "exn + 'a \<Rightarrow> ('a \<Rightarrow> exn + 'b) \<Rightarrow> exn + 'b" where
  "try_bind m f = (case m of Inl e \<Rightarrow> Inl e | Inr x \<Rightarrow> f x)"

section \<open>The agent: \<open>agent_discovery.py\<close>\<close>

subsection \<open>\<open>verify_spec_url\<close>\<close>

definition keyword_list :: "string list" where
  \<open>keyword_list =
    [''"openapi":'', [CHR 0x27] @ ''openapi'' @ [CHR 0x27] @ '':'', ''openapi:'', ''swagger:'']\<close>

definition has_openapi :: "string \<Rightarrow> bool" where
  "has_openapi content = list_ex (\<lambda>keyword. contains keyword (lower content)) keyword_list"

definition verify_spec_url :: "env \<Rightarrow> pyval \<Rightarrow> bool \<times> event list" where
  "verify_spec_url E url =
    (case requests_head E url of
       Inl e \<Rightarrow> (False, [HeadReq url 10 True])
     | Inr response \<Rightarrow>
         if status_code response = 200 then
           (case requests_get E url of
              Inl e \<Rightarrow> (False, [HeadReq url 10 True, GetReq url 30])
            | Inr content_response \<Rightarrow>
                (has_openapi (body_text content_response),
                 [HeadReq url 10 True, GetReq url 30]))
         else (False, [HeadReq url 10 True]))"

subsection \<open>\<open>SpecLocation\<close>\<close>

text \<open>The dataclass; its annotations are not enforced, so every field holds a \<open>pyval\<close>.\<close>

record SpecLocation =
  download_url :: pyval
  version :: pyval
  format :: pyval
  versioning_strategy :: pyval
  github_info :: pyval
  confidence :: pyval
  reasoning :: pyval

subsection \<open>\<open>_fetch_documentation\<close>\<close>

definition fetch_documentation :: "env \<Rightarrow> pyval \<Rightarrow> string \<times> event list" where
  "fetch_documentation E url =
    (case requests_get E url of
       Inl e \<Rightarrow> ([], [GetReq url 30])
     | Inr response \<Rightarrow>
         (case raise_for_status E response of
            Some e \<Rightarrow> ([], [GetReq url 30])
          | None \<Rightarrow> (take 100000 (body_text response), [GetReq url 30])))"

subsection \<open>\<open>_analyze_with_claude\<close>\<close>

definition newline :: string where
  "newline = [CHR 0x0A]"

definition system_prompt :: string where
  \<open>system_prompt = concat (map (\<lambda>line. line @ newline)
    [''You are an expert at finding OpenAPI specifications from vendor documentation.'',
     [],
     ''Your task is to analyze documentation pages and determine:'',
     ''1. Where the OpenAPI spec file is located'',
     ''2. How to download it'',
     ''3. What versioning strategy the vendor uses'',
     ''4. The format (YAML or JSON)'',
     [],
     ''Return your findings in this exact JSON format:'',
     ''{'',
     ''  "download_url": "direct URL to download the spec",'',
     ''  "version": "version string or null if unknown",'',
     ''  "format": "yaml or json",'',
     ''  "versioning_strategy": "release-tag | file-based | in-spec | unknown",'',
     ''  "github_info": {'',
     ''    "owner": "github-owner",'',
     ''    "repo": "repo-name",'',
     ''    "path": "path/to/spec.yaml"'',
     ''  } or null,'',
     ''  "confidence": "high | medium | low",'',
     ''  "reasoning": "explain why you believe this is correct"'',
     ''}'',
     [],
     ''Common patterns to look for:'',
     ''- Links to GitHub repositories with OpenAPI specs'',
     ''- Direct download links to .yaml or .json files'',
     ''- API reference sections mentioning "OpenAPI", "Swagger", "OAS"'',
     ''- Developer resources or API documentation downloads'',
     ''- Version numbers in URLs or page content''])\<close>

definition user_prompt ::
  "env \<Rightarrow> pyval \<Rightarrow> pyval \<Rightarrow> pyval \<Rightarrow> string \<Rightarrow> pyval list \<Rightarrow> string" where
  "user_prompt E vendor api_name documentation_url page_content hints =
    ''Find the OpenAPI specification for: '' @ format_value E vendor @ '' '' @
      format_value E api_name @ newline @
    newline @
    ''Documentation URL: '' @ format_value E documentation_url @ newline @
    newline @
    ''Hints:'' @ newline @
    join newline (map (\<lambda>hint. ''- '' @ format_value E hint) hints) @ newline @
    newline @
    ''Documentation page content (truncated):'' @ newline @
    take 50000 page_content @ newline @
    newline @
    ''Analyze this page and find where I can download the OpenAPI specification.'' @ newline @
    ''Return ONLY valid JSON, no other text.''"

text \<open>\<open>message.content[0].text\<close>.\<close>

fun block_text :: "block \<Rightarrow> exn + string" where
  "block_text (TextBlock t) = Inr t"
| "block_text (OtherBlock cls) =
    Inl (Exn ''AttributeError''
      ([CHR 0x27] @ cls @ [CHR 0x27] @ '' object has no attribute '' @
       [CHR 0x27] @ ''text'' @ [CHR 0x27]))"

definition fence :: string where
  "fence = ''```''"

definition fence_json :: string where
  "fence_json = ''```json''"

text \<open>The removal of a markdown code block, lines 166 to 169.\<close>

definition strip_fence :: "string \<Rightarrow> exn + string" where
  "strip_fence response_text =
    (if contains fence_json response_text then
       try_bind (index (split fence_json response_text) 1)
         (\<lambda>inner. index (split fence inner) 0)
     else if contains fence response_text then
       try_bind (index (split fence response_text) 1)
         (\<lambda>inner. index (split fence inner) 0)
     else Inr response_text)"

text \<open>
  From the parsed result to the returned record, lines 174 to 185.  The two \<open>print\<close>
  calls evaluate \<open>result.get\<close> and the slice \<open>[:100]\<close> first, and either can raise.
\<close>

definition location_of_result :: "pyval \<Rightarrow> exn + SpecLocation" where
  "location_of_result result =
    try_bind (get result ''confidence'' (PStr ''unknown'')) (\<lambda>shown_confidence.
    try_bind (get result ''reasoning'' (PStr ''N/A'')) (\<lambda>shown_reasoning.
    try_bind (slice_to shown_reasoning 100) (\<lambda>shown.
    try_bind (get result ''download_url'' (PStr [])) (\<lambda>v_download_url.
    try_bind (get result ''version'' PNone) (\<lambda>v_version.
    try_bind (get result ''format'' (PStr ''yaml'')) (\<lambda>v_format.
    try_bind (get result ''versioning_strategy'' (PStr ''unknown'')) (\<lambda>v_versioning_strategy.
    try_bind (get result ''github_info'' PNone) (\<lambda>v_github_info.
    try_bind (get result ''confidence'' (PStr ''low'')) (\<lambda>v_confidence.
    try_bind (get result ''reasoning'' (PStr [])) (\<lambda>v_reasoning.
      Inr \<lparr> download_url = v_download_url,
            version = v_version,
            format = v_format,
            versioning_strategy = v_versioning_strategy,
            github_info = v_github_info,
            confidence = v_confidence,
            reasoning = v_reasoning \<rparr>))))))))))"

text \<open>The record built in the \<open>except\<close> branch, lines 189 to 197.\<close>

definition fallback :: "exn \<Rightarrow> SpecLocation" where
  "fallback e =
    \<lparr> download_url = PStr [],
      version = PNone,
      format = PStr ''yaml'',
      versioning_strategy = PStr ''unknown'',
      github_info = PNone,
      confidence = PStr ''low'',
      reasoning = PStr (''Error during analysis: '' @ exn_str e) \<rparr>"

definition model_name :: string where
  "model_name = ''claude-sonnet-4-20250514''"

text \<open>
  The body of the \<open>try\<close> block after the call: lines 162 to 171 give the parsed
  result, lines 174 to 185 the record.
\<close>

definition parsed_result :: "env \<Rightarrow> block list \<Rightarrow> exn + pyval" where
  "parsed_result E content =
    try_bind (index content 0) (\<lambda>first.
    try_bind (block_text first) (\<lambda>response_text.
    try_bind (strip_fence response_text) (\<lambda>json_text.
      json_loads E (strip json_text))))"

definition read_response :: "env \<Rightarrow> block list \<Rightarrow> exn + SpecLocation" where
  "read_response E content = try_bind (parsed_result E content) location_of_result"

text \<open>
  The prompt is built before the \<open>try\<close> block, so a \<open>hints\<close> that cannot be iterated
  raises to the caller, before any call is made.
\<close>

definition analyze_with_claude ::
  "env \<Rightarrow> pyval \<Rightarrow> pyval \<Rightarrow> pyval \<Rightarrow> string \<Rightarrow> pyval \<Rightarrow>
   (exn + SpecLocation) \<times> event list" where
  "analyze_with_claude E vendor api_name documentation_url page_content hints =
    (case iterate hints of
       Inl e \<Rightarrow> (Inl e, [])
     | Inr hint_list \<Rightarrow>
         (let prompt = user_prompt E vendor api_name documentation_url page_content hint_list in
          (case try_bind (messages_create E model_name 2000 system_prompt prompt)
                  (read_response E) of
             Inl e \<Rightarrow> Inr (fallback e)
           | Inr location \<Rightarrow> Inr location,
           [CreateReq model_name 2000 system_prompt prompt])))"

subsection \<open>\<open>discover_spec\<close>\<close>

definition discover_spec ::
  "env \<Rightarrow> pyval \<Rightarrow> pyval \<Rightarrow> pyval \<Rightarrow> pyval \<Rightarrow> (exn + SpecLocation) \<times> event list" where
  "discover_spec E vendor api_name documentation_url hints =
    (let (page_content, fetched) = fetch_documentation E documentation_url;
         (spec_location, analyzed) =
           analyze_with_claude E vendor api_name documentation_url page_content
             (if truthy hints then hints else PList [])
     in (spec_location, fetched @ analyzed))"

section \<open>The front door: \<open>agent_api.py\<close>\<close>

text \<open>
  A route returns the JSON body and the status code.  The argument \<open>request_json\<close> is what
  \<open>request.get_json()\<close> gives: the decoded body, or the exception it raises.
\<close>

definition required :: "string list" where
  "required = [''vendor'', ''api_name'', ''documentation_url'']"

text \<open>The validation loop, lines 51 to 53: the first required field that is not in \<open>data\<close>.\<close>

fun first_missing :: "string list \<Rightarrow> pyval \<Rightarrow> exn + string option" where
  "first_missing [] data = Inr None"
| "first_missing (field # rest) data =
    (case py_in field data of
       Inl e \<Rightarrow> Inl e
     | Inr present \<Rightarrow> if present then first_missing rest data else Inr (Some field))"

definition error_response :: "string \<Rightarrow> int \<Rightarrow> pyval \<times> int" where
  "error_response msg status = (PDict [(''error'', PStr msg)], status)"

definition location_response :: "SpecLocation \<Rightarrow> pyval" where
  "location_response result =
    PDict [(''download_url'', download_url result),
           (''version'', version result),
           (''format'', format result),
           (''versioning_strategy'', versioning_strategy result),
           (''github_info'', github_info result),
           (''confidence'', confidence result),
           (''reasoning'', reasoning result)]"

text \<open>Lines 56 to 59: the parameters taken from the body.\<close>

definition extract_parameters :: "pyval \<Rightarrow> exn + (pyval \<times> pyval \<times> pyval \<times> pyval)" where
  "extract_parameters data =
    try_bind (getitem data ''vendor'') (\<lambda>vendor.
    try_bind (getitem data ''api_name'') (\<lambda>api_name.
    try_bind (getitem data ''documentation_url'') (\<lambda>documentation_url.
    try_bind (get data ''hints'' (PList [])) (\<lambda>hints.
      Inr (vendor, api_name, documentation_url, hints)))))"

definition api_discover_spec :: "env \<Rightarrow> exn + pyval \<Rightarrow> (pyval \<times> int) \<times> event list" where
  "api_discover_spec E request_json =
    (case request_json of
       Inl e \<Rightarrow> (error_response (exn_str e) 500, [])
     | Inr data \<Rightarrow>
         (case first_missing required data of
            Inl e \<Rightarrow> (error_response (exn_str e) 500, [])
          | Inr (Some field) \<Rightarrow>
              (error_response (''Missing required field: '' @ field) 400, [])
          | Inr None \<Rightarrow>
              (case extract_parameters data of
                 Inl e \<Rightarrow> (error_response (exn_str e) 500, [])
               | Inr (vendor, api_name, documentation_url, hints) \<Rightarrow>
                   (case discover_spec E vendor api_name documentation_url hints of
                      (Inl e, calls) \<Rightarrow> (error_response (exn_str e) 500, calls)
                    | (Inr result, calls) \<Rightarrow> ((location_response result, 200), calls)))))"

definition api_verify_url :: "env \<Rightarrow> exn + pyval \<Rightarrow> (pyval \<times> int) \<times> event list" where
  "api_verify_url E request_json =
    (case request_json of
       Inl e \<Rightarrow> (error_response (exn_str e) 500, [])
     | Inr data \<Rightarrow>
         (case get data ''url'' PNone of
            Inl e \<Rightarrow> (error_response (exn_str e) 500, [])
          | Inr url \<Rightarrow>
              if \<not> truthy url
              then (error_response
                      (''Missing '' @ [CHR 0x27] @ ''url'' @ [CHR 0x27] @ '' field'') 400, [])
              else
                (let (is_valid, calls) = verify_spec_url E url in
                 ((PDict [(''valid'', PBool is_valid),
                          (''message'', PStr (if is_valid then ''Valid OpenAPI spec''
                                              else ''Not a valid OpenAPI spec''))],
                   200), calls))))"

section \<open>Definitions that follow the specification's words\<close>

text \<open>A success status in the sense of HTTP: the class 2xx.\<close>

definition success_status :: "int \<Rightarrow> bool" where
  "success_status s = (200 \<le> s \<and> s < 300)"

text \<open>The check with the two unquoted markers only.\<close>

definition has_openapi_two :: "string \<Rightarrow> bool" where
  "has_openapi_two content =
    (contains ''openapi:'' (lower content) \<or> contains ''swagger:'' (lower content))"

text \<open>The values that \<open>[:100]\<close> accepts.\<close>

fun sliceable :: "pyval \<Rightarrow> bool" where
  "sliceable (PStr s) = True"
| "sliceable (PList xs) = True"
| "sliceable v = False"

text \<open>\<open>d.get(key, default)\<close> on the association list of a dict.\<close>

definition dict_get :: "(string \<times> pyval) list \<Rightarrow> string \<Rightarrow> pyval \<Rightarrow> pyval" where
  "dict_get kvs k d = (case map_of kvs k of Some v \<Rightarrow> v | None \<Rightarrow> d)"

text \<open>A response wrapped in a fenced code block, with and without the language tag.\<close>

definition fenced_json :: "string \<Rightarrow> string" where
  "fenced_json j = fence_json @ newline @ j @ newline @ fence"

definition fenced_plain :: "string \<Rightarrow> string" where
  "fenced_plain j = fence @ newline @ j @ newline @ fence"

section \<open>Test doubles for the library calls\<close>

text \<open>
  A parser given by a table from texts to what \<open>json.loads\<close> returns or raises for them;
  a text outside the table is rejected like a text that holds no JSON value.
\<close>

definition table_loads :: "(string \<times> (exn + pyval)) list \<Rightarrow> string \<Rightarrow> exn + pyval" where
  "table_loads table s =
    (case map_of table s of
       Some r \<Rightarrow> r
     | None \<Rightarrow> Inl (Exn ''JSONDecodeError'' ''Expecting value: line 1 column 1 (char 0)''))"

text \<open>
  An outside world with fixed replies: one for the probe, one for the retrieval, one for
  the reasoning service, and a parser table.  \<open>raise_for_status\<close> raises on 4xx and 5xx.
\<close>

definition http_error :: "response \<Rightarrow> exn option" where
  "http_error r =
    (if 400 \<le> status_code r \<and> status_code r < 600
     then Some (Exn ''HTTPError'' ''HTTP error'') else None)"

definition world ::
  "exn + response \<Rightarrow> exn + response \<Rightarrow> exn + block list \<Rightarrow>
   (string \<times> (exn + pyval)) list \<Rightarrow> env" where
  "world head_reply get_reply create_reply table =
    \<lparr> requests_head = (\<lambda>url. head_reply),
      requests_get = (\<lambda>url. get_reply),
      raise_for_status = http_error,
      messages_create = (\<lambda>model max_tokens system user. create_reply),
      json_loads = table_loads table,
      py_repr = (\<lambda>v. []) \<rparr>"

definition reply :: "int \<Rightarrow> string \<Rightarrow> exn + response" where
  "reply s b = Inr \<lparr> status_code = s, body_text = b \<rparr>"

definition unreachable :: "exn + 'a" where
  "unreachable = Inl (Exn ''ConnectionError'' ''connection refused'')"

text \<open>
  Sample answers of the reasoning service, each with the value that \<open>json.loads\<close> gives
  for it.  The first is the end-to-end scenario of the specification.
\<close>

definition acme_json :: string where
  \<open>acme_json = ''{"download_url": "https://raw.githubusercontent.com/acme/widgets-oai/main/openapi.yaml", "version": null, "format": "yaml", "versioning_strategy": "in-spec", "github_info": {"owner": "acme", "repo": "widgets-oai", "path": "openapi.yaml"}, "confidence": "high", "reasoning": "linked from the page"}''\<close>

definition acme_github :: pyval where
  "acme_github =
    PDict [(''owner'', PStr ''acme''), (''repo'', PStr ''widgets-oai''),
           (''path'', PStr ''openapi.yaml'')]"

definition acme_dict :: "(string \<times> pyval) list" where
  "acme_dict =
    [(''download_url'',
        PStr ''https://raw.githubusercontent.com/acme/widgets-oai/main/openapi.yaml''),
     (''version'', PNone),
     (''format'', PStr ''yaml''),
     (''versioning_strategy'', PStr ''in-spec''),
     (''github_info'', acme_github),
     (''confidence'', PStr ''high''),
     (''reasoning'', PStr ''linked from the page'')]"

definition null_reasoning_json :: string where
  \<open>null_reasoning_json = ''{"download_url": "https://example.com/openapi.json", "version": "1.0", "format": "json", "versioning_strategy": "in-spec", "github_info": null, "confidence": "high", "reasoning": null}''\<close>

definition null_reasoning_dict :: "(string \<times> pyval) list" where
  "null_reasoning_dict =
    [(''download_url'', PStr ''https://example.com/openapi.json''),
     (''version'', PStr ''1.0''),
     (''format'', PStr ''json''),
     (''versioning_strategy'', PStr ''in-spec''),
     (''github_info'', PNone),
     (''confidence'', PStr ''high''),
     (''reasoning'', PNone)]"

definition xml_json :: string where
  \<open>xml_json = ''{"format": "xml", "confidence": "certain", "versioning_strategy": 7}''\<close>

definition xml_dict :: "(string \<times> pyval) list" where
  "xml_dict =
    [(''format'', PStr ''xml''), (''confidence'', PStr ''certain''),
     (''versioning_strategy'', PInt 7)]"

definition owner_only_json :: string where
  \<open>owner_only_json = ''{"github_info": {"owner": "acme", "repo": ""}}''\<close>

definition owner_only_dict :: "(string \<times> pyval) list" where
  "owner_only_dict =
    [(''github_info'', PDict [(''owner'', PStr ''acme''), (''repo'', PStr [])])]"

definition inner_fence_json :: string where
  \<open>inner_fence_json = ''{"reasoning":"a```{}```b"}''\<close>

text \<open>
  What \<open>json.loads\<close> does on the texts that the engine hands over in these samples; the
  text cut at the inner fence is an unterminated string.
\<close>

definition sample_table :: "(string \<times> (exn + pyval)) list" where
  \<open>sample_table =
    [(acme_json, Inr (PDict acme_dict)),
     (null_reasoning_json, Inr (PDict null_reasoning_dict)),
     (xml_json, Inr (PDict xml_dict)),
     (owner_only_json, Inr (PDict owner_only_dict)),
     (inner_fence_json, Inr (PDict [(''reasoning'', PStr ''a```{}```b'')])),
     (''{}'', Inr (PDict [])),
     (''{"reasoning":"a'',
        Inl (Exn ''JSONDecodeError''
               ''Unterminated string starting at: line 1 column 14 (char 13)''))]\<close>

text \<open>The world in which the reasoning service answers with one text block.\<close>

definition answering :: "string \<Rightarrow> env" where
  "answering t = world unreachable unreachable (Inr [TextBlock t]) sample_table"

section \<open>Facts about the built-in operations\<close>

lemma has_openapi_markers:
  \<open>has_openapi content =
    (contains ''"openapi":'' (lower content) \<or>
     contains ([CHR 0x27] @ ''openapi'' @ [CHR 0x27] @ '':'') (lower content) \<or>
     contains ''openapi:'' (lower content) \<or>
     contains ''swagger:'' (lower content))\<close>
  by (simp add: has_openapi_def keyword_list_def)

lemma is_prefix_append_left:
  "is_prefix (a @ b) s \<Longrightarrow> is_prefix a s"
  by (induction a s rule: is_prefix.induct) auto

lemma fence_json_starts_with_fence:
  "is_prefix fence_json s \<Longrightarrow> is_prefix fence s"
  using is_prefix_append_left [of fence "''json''" s]
  by (simp add: fence_json_def fence_def)

lemma contains_fence_json_fence:
  "contains fence_json s \<Longrightarrow> contains fence s"
proof (induction s)
  case Nil
  then show ?case by (simp add: fence_json_def)
next
  case (Cons c cs)
  then show ?case using fence_json_starts_with_fence [of "c # cs"] by auto
qed

lemma split_without_sep:
  "\<not> contains sep s \<Longrightarrow> split sep s = [s]"
  by (induction s) auto

lemma fence_not_prefix_before_newline:
  "\<not> contains fence j \<Longrightarrow> \<not> is_prefix fence (j @ newline @ rest)"
proof (cases j)
  case Nil
  then show ?thesis by (simp add: fence_def newline_def)
next
  case (Cons a j1)
  note c1 = Cons
  assume nf: "\<not> contains fence j"
  show ?thesis
  proof (cases j1)
    case Nil
    with c1 show ?thesis by (simp add: fence_def newline_def)
  next
    case (Cons b j2)
    note c2 = Cons
    show ?thesis
    proof (cases j2)
      case Nil
      with c1 c2 show ?thesis by (simp add: fence_def newline_def)
    next
      case (Cons c j3)
      with c1 c2 nf show ?thesis by (simp add: fence_def)
    qed
  qed
qed

lemma no_fence_append_newline:
  "\<not> contains fence j \<Longrightarrow> \<not> contains fence (j @ newline)"
proof (induction j)
  case Nil
  then show ?case by (simp add: fence_def newline_def)
next
  case (Cons c cs)
  have "\<not> is_prefix fence ((c # cs) @ newline @ [])"
    using Cons.prems by (rule fence_not_prefix_before_newline)
  with Cons show ?case by simp
qed

lemma no_fence_newline_cons:
  "\<not> contains fence j \<Longrightarrow> \<not> contains fence (newline @ j)"
  by (simp add: fence_def newline_def)

lemma split_fence_closing:
  "\<not> contains fence j \<Longrightarrow> split fence (j @ newline @ fence) = [j @ newline, []]"
proof (induction j)
  case Nil
  then show ?case by (simp add: fence_def newline_def)
next
  case (Cons c cs)
  have "\<not> is_prefix fence ((c # cs) @ newline @ fence)"
    using Cons.prems by (rule fence_not_prefix_before_newline)
  moreover have "split fence (cs @ newline @ fence) = [cs @ newline, []]"
    using Cons by simp
  ultimately show ?case by simp
qed

lemma no_fence_json_closing:
  "\<not> contains fence j \<Longrightarrow> \<not> contains fence_json (j @ newline @ fence)"
proof (induction j)
  case Nil
  then show ?case by (simp add: fence_def fence_json_def newline_def)
next
  case (Cons c cs)
  have "\<not> is_prefix fence ((c # cs) @ newline @ fence)"
    using Cons.prems by (rule fence_not_prefix_before_newline)
  then have "\<not> is_prefix fence_json ((c # cs) @ newline @ fence)"
    using fence_json_starts_with_fence by blast
  with Cons show ?case by simp
qed

lemma strip_fence_unwrapped:
  "\<not> contains fence j \<Longrightarrow> strip_fence j = Inr j"
  using contains_fence_json_fence [of j] by (auto simp: strip_fence_def)

lemma strip_fence_fenced_json:
  assumes "\<not> contains fence j"
  shows "strip_fence (fenced_json j) = Inr (newline @ j @ newline)"
proof -
  let ?inner = "newline @ j @ newline @ fence"
  have nf: "\<not> contains fence (newline @ j)"
    using assms by (rule no_fence_newline_cons)
  have c: "contains fence_json (fenced_json j)"
    by (simp add: fenced_json_def fence_json_def)
  have "\<not> contains fence_json ((newline @ j) @ newline @ fence)"
    using nf by (rule no_fence_json_closing)
  then have "split fence_json ?inner = [?inner]"
    by (simp add: split_without_sep)
  then have s1: "split fence_json (fenced_json j) = [[], ?inner]"
    by (simp add: fenced_json_def fence_json_def)
  have s2: "split fence ?inner = [newline @ j @ newline, []]"
    using split_fence_closing [OF nf] by simp
  show ?thesis
    using c by (simp add: strip_fence_def s1 s2 index_def try_bind_def)
qed

lemma strip_fence_fenced_plain:
  assumes "\<not> contains fence j"
  shows "strip_fence (fenced_plain j) = Inr (newline @ j @ newline)"
proof -
  let ?inner = "newline @ j @ newline @ fence"
  have nf: "\<not> contains fence (newline @ j)"
    using assms by (rule no_fence_newline_cons)
  have nj: "\<not> contains fence_json ((newline @ j) @ newline @ fence)"
    using nf by (rule no_fence_json_closing)
  have c1: "\<not> contains fence_json (fenced_plain j)"
    using nj by (simp add: fenced_plain_def fence_def fence_json_def newline_def)
  have c2: "contains fence (fenced_plain j)"
    by (simp add: fenced_plain_def fence_def)
  have "split fence ?inner = [newline @ j @ newline, []]"
    using split_fence_closing [OF nf] by simp
  then have s1: "split fence (fenced_plain j) = [[], newline @ j @ newline, []]"
    by (simp add: fenced_plain_def fence_def)
  have "\<not> contains fence ((newline @ j) @ newline)"
    using nf by (rule no_fence_append_newline)
  then have s2: "split fence (newline @ j @ newline) = [newline @ j @ newline]"
    by (simp add: split_without_sep)
  show ?thesis
    using c1 c2 by (simp add: strip_fence_def s1 s2 index_def try_bind_def)
qed

lemma is_space_newline: "is_space (CHR 0x0A)"
  by code_simp

lemma strip_between_newlines:
  "strip (newline @ j @ newline) = strip j"
proof -
  have r: "rev (newline @ j @ newline) = CHR 0x0A # (rev j @ [CHR 0x0A])"
    by (simp add: newline_def)
  have d: "dropWhile is_space (CHR 0x0A # xs) = dropWhile is_space xs" for xs
    by (simp add: is_space_newline)
  show ?thesis
  proof (cases "\<forall>c \<in> set j. is_space c")
    case True
    then have a: "dropWhile is_space (rev j) = []"
      by simp
    have b: "dropWhile is_space (rev j @ [CHR 0x0A]) = []"
      using True by (simp add: is_space_newline)
    show ?thesis
      unfolding strip_def rstrip_def r d a b by simp
  next
    case False
    then have b: "dropWhile is_space (rev j @ [CHR 0x0A]) = dropWhile is_space (rev j) @ [CHR 0x0A]"
      by (auto simp: dropWhile_append)
    have "rev (dropWhile is_space (rev j) @ [CHR 0x0A]) = CHR 0x0A # rev (dropWhile is_space (rev j))"
      by simp
    then show ?thesis
      unfolding strip_def rstrip_def r d b by (simp add: is_space_newline)
  qed
qed

section \<open>The verifier\<close>

text \<open>
  C4, as stated, with a success status read as HTTP reads it (2xx): the probe answers
  204, a success status, and the retrieval would give a body with a marker, yet
  \<open>verify_spec_url\<close> returns false after the probe alone.
\<close>

theorem verify_success_status_counterexample:
  "success_status 204 \<and>
   has_openapi ''openapi: 3.0.0'' \<and>
   verify_spec_url
     (world (reply 204 []) (reply 200 ''openapi: 3.0.0'') unreachable [])
     (PStr ''https://example.com/openapi.yaml'')
   = (False, [HeadReq (PStr ''https://example.com/openapi.yaml'') 10 True])"
  by code_simp

text \<open>
  C4, amended: the gate is the status 200 and nothing else.  When the probe raises or
  answers any other status, \<open>verify_spec_url\<close> returns false and only the probe was
  made.  When the probe answers 200 the retrieval is made: if it raises the result is
  false, and otherwise the result is true exactly when the lower-cased body contains
  one of the four markers.
\<close>

theorem verify_spec_url_status_200:
  \<open>(requests_head E url = Inl e \<longrightarrow>
      verify_spec_url E url = (False, [HeadReq url 10 True])) \<and>
   (requests_head E url = Inr r \<and> status_code r \<noteq> 200 \<longrightarrow>
      verify_spec_url E url = (False, [HeadReq url 10 True])) \<and>
   (requests_head E url = Inr r \<and> status_code r = 200 \<and> requests_get E url = Inl e' \<longrightarrow>
      verify_spec_url E url = (False, [HeadReq url 10 True, GetReq url 30])) \<and>
   (requests_head E url = Inr r \<and> status_code r = 200 \<and> requests_get E url = Inr c \<longrightarrow>
      verify_spec_url E url =
        (contains ''"openapi":'' (lower (body_text c)) \<or>
         contains ([CHR 0x27] @ ''openapi'' @ [CHR 0x27] @ '':'') (lower (body_text c)) \<or>
         contains ''openapi:'' (lower (body_text c)) \<or>
         contains ''swagger:'' (lower (body_text c)),
         [HeadReq url 10 True, GetReq url 30]))\<close>
  by (simp add: verify_spec_url_def has_openapi_markers)

theorem verify_spec_url_status_200_witness:
  \<open>verify_spec_url (world unreachable (reply 200 ''openapi: 3.0.0'') unreachable [])
       (PStr ''https://example.com/a.yaml'')
     = (False, [HeadReq (PStr ''https://example.com/a.yaml'') 10 True]) \<and>
   verify_spec_url (world (reply 404 []) (reply 200 ''openapi: 3.0.0'') unreachable [])
       (PStr ''https://example.com/a.yaml'')
     = (False, [HeadReq (PStr ''https://example.com/a.yaml'') 10 True]) \<and>
   verify_spec_url (world (reply 200 []) unreachable unreachable [])
       (PStr ''https://example.com/a.yaml'')
     = (False, [HeadReq (PStr ''https://example.com/a.yaml'') 10 True,
                GetReq (PStr ''https://example.com/a.yaml'') 30]) \<and>
   verify_spec_url (world (reply 200 []) (reply 200 ''{"OpenAPI": "3.0.0"}'') unreachable [])
       (PStr ''https://example.com/a.yaml'')
     = (True, [HeadReq (PStr ''https://example.com/a.yaml'') 10 True,
               GetReq (PStr ''https://example.com/a.yaml'') 30]) \<and>
   verify_spec_url (world (reply 200 []) (reply 200 ''<html>not a spec</html>'') unreachable [])
       (PStr ''https://example.com/a.yaml'')
     = (False, [HeadReq (PStr ''https://example.com/a.yaml'') 10 True,
                GetReq (PStr ''https://example.com/a.yaml'') 30])\<close>
proof -
  let ?u = "PStr ''https://example.com/a.yaml''"
  have lc1: \<open>lower ''{"OpenAPI": "3.0.0"}'' = ''{"openapi": "3.0.0"}''\<close>
    by code_simp
  have lc2: \<open>lower ''<html>not a spec</html>'' = ''<html>not a spec</html>''\<close>
    by code_simp
  have w1: "requests_head (world unreachable g k t) ?u = Inl (Exn ''ConnectionError'' ''connection refused'')"
    for g k t by (simp add: world_def unreachable_def)
  have w2: "requests_head (world (reply s b) g k t) ?u = Inr \<lparr> status_code = s, body_text = b \<rparr>"
    for s b g k t by (simp add: world_def reply_def)
  have w3: "requests_get (world h unreachable k t) ?u = Inl (Exn ''ConnectionError'' ''connection refused'')"
    for h k t by (simp add: world_def unreachable_def)
  have w4: "requests_get (world h (reply s b) k t) ?u = Inr \<lparr> status_code = s, body_text = b \<rparr>"
    for h s b k t by (simp add: world_def reply_def)
  show ?thesis
    using verify_spec_url_status_200
            [of "world unreachable (reply 200 ''openapi: 3.0.0'') unreachable []" ?u
                "Exn ''ConnectionError'' ''connection refused''"]
          verify_spec_url_status_200
            [of "world (reply 404 []) (reply 200 ''openapi: 3.0.0'') unreachable []" ?u _
                "\<lparr> status_code = 404, body_text = [] \<rparr>"]
          verify_spec_url_status_200
            [of "world (reply 200 []) unreachable unreachable []" ?u _
                "\<lparr> status_code = 200, body_text = [] \<rparr>"
                "Exn ''ConnectionError'' ''connection refused''"]
          verify_spec_url_status_200
            [of "world (reply 200 []) (reply 200 ''{\"OpenAPI\": \"3.0.0\"}'') unreachable []" ?u _
                "\<lparr> status_code = 200, body_text = [] \<rparr>" _
                "\<lparr> status_code = 200, body_text = ''{\"OpenAPI\": \"3.0.0\"}'' \<rparr>"]
          verify_spec_url_status_200
            [of "world (reply 200 []) (reply 200 ''<html>not a spec</html>'') unreachable []" ?u _
                "\<lparr> status_code = 200, body_text = [] \<rparr>" _
                "\<lparr> status_code = 200, body_text = ''<html>not a spec</html>'' \<rparr>"]
    by (simp add: w1 w2 w3 w4 lc1 lc2)
qed



text \<open>
  C9, as stated: the body of a JSON specification holds the quoted marker only, so the
  check of \<open>verify_spec_url\<close> accepts it while the two unquoted markers are both absent.
\<close>

theorem two_marker_check_counterexample:
  \<open>has_openapi ''{"openapi": "3.0.0"}'' \<and> \<not> has_openapi_two ''{"openapi": "3.0.0"}''\<close>
  by code_simp

text \<open>
  C9, amended: the two-marker check implies the four-marker check, and not the other way
  round: neither quoted marker contains \<open>openapi:\<close>, because the closing quote stands
  between the word and the colon.
\<close>

theorem two_marker_check_implies_has_openapi:
  \<open>(has_openapi_two content \<longrightarrow> has_openapi content) \<and>
   \<not> contains ''openapi:'' ''"openapi":'' \<and>
   \<not> contains ''openapi:'' ([CHR 0x27] @ ''openapi'' @ [CHR 0x27] @ '':'')\<close>
  by (simp add: has_openapi_two_def has_openapi_markers)

theorem two_marker_check_implies_has_openapi_witness:
  \<open>has_openapi_two ''swagger: "2.0"'' \<and> has_openapi ''swagger: "2.0"''\<close>
proof -
  have h: \<open>has_openapi_two ''swagger: "2.0"''\<close>
    by code_simp
  show ?thesis
    using h two_marker_check_implies_has_openapi [of \<open>''swagger: "2.0"''\<close>] by simp
qed

section \<open>Facts about the analysis engine\<close>

lemma split_has_first_piece: "split sep s \<noteq> []"
  by (induction s) (auto split: list.splits)

lemma split_has_second_piece:
  "sep \<noteq> [] \<Longrightarrow> contains sep s \<Longrightarrow> 2 \<le> length (split sep s)"
proof (induction s)
  case Nil
  then show ?case by simp
next
  case (Cons c cs)
  show ?case
  proof (cases "is_prefix sep (c # cs)")
    case True
    have "1 \<le> length (split sep (drop (length sep) (c # cs)))"
      using split_has_first_piece [of sep "drop (length sep) (c # cs)"]
      by (cases "split sep (drop (length sep) (c # cs))") auto
    with True Cons.prems show ?thesis by simp
  next
    case False
    with Cons show ?thesis by (auto split: list.splits)
  qed
qed

text \<open>Lines 166 to 169 never raise: the pieces they index are always there.\<close>

lemma strip_fence_returns: "\<exists>j. strip_fence t = Inr j"
proof -
  have first: "\<exists>j. index (split fence inner) 0 = Inr j" for inner
    using split_has_first_piece [of fence inner]
    by (cases "split fence inner") (auto simp: index_def)
  have second: "contains sep t \<Longrightarrow> sep \<noteq> [] \<Longrightarrow> \<exists>inner. index (split sep t) 1 = Inr inner"
    for sep
    using split_has_second_piece [of sep t] by (auto simp: index_def)
  have nonempty: "fence \<noteq> []" "fence_json \<noteq> []"
    by (simp_all add: fence_def fence_json_def)
  show ?thesis
  proof (cases "contains fence_json t")
    case True
    from second [OF True nonempty(2)] obtain inner
      where "index (split fence_json t) 1 = Inr inner" by blast
    with True first [of inner] show ?thesis
      by (auto simp: strip_fence_def try_bind_def)
  next
    case False
    note nj = False
    show ?thesis
    proof (cases "contains fence t")
      case True
      from second [OF True nonempty(1)] obtain inner
        where "index (split fence t) 1 = Inr inner" by blast
      with True nj first [of inner] show ?thesis
        by (auto simp: strip_fence_def try_bind_def)
    next
      case False
      with nj show ?thesis by (simp add: strip_fence_def)
    qed
  qed
qed

lemma analyze_returns:
  "fst (analyze_with_claude E vendor api_name url page (PList hs)) =
    Inr (case try_bind
                (messages_create E model_name 2000 system_prompt
                   (user_prompt E vendor api_name url page hs))
                (read_response E) of
           Inl e \<Rightarrow> fallback e
         | Inr location \<Rightarrow> location)"
  by (simp add: analyze_with_claude_def Let_def split: sum.splits)

lemma analyze_raised:
  assumes "try_bind
             (messages_create E model_name 2000 system_prompt
                (user_prompt E vendor api_name url page hs))
             (read_response E) = Inl e"
  shows "fst (analyze_with_claude E vendor api_name url page (PList hs)) = Inr (fallback e)"
  using assms by (simp add: analyze_returns)

lemma location_of_dict:
  assumes "sliceable (dict_get kvs ''reasoning'' (PStr ''N/A''))"
  shows "location_of_result (PDict kvs) =
    Inr \<lparr> download_url = dict_get kvs ''download_url'' (PStr []),
          version = dict_get kvs ''version'' PNone,
          format = dict_get kvs ''format'' (PStr ''yaml''),
          versioning_strategy = dict_get kvs ''versioning_strategy'' (PStr ''unknown''),
          github_info = dict_get kvs ''github_info'' PNone,
          confidence = dict_get kvs ''confidence'' (PStr ''low''),
          reasoning = dict_get kvs ''reasoning'' (PStr []) \<rparr>"
proof -
  obtain shown where "slice_to (dict_get kvs ''reasoning'' (PStr ''N/A'')) 100 = Inr shown"
    using assms by (cases "dict_get kvs ''reasoning'' (PStr ''N/A'')") auto
  then show ?thesis
    by (simp add: location_of_result_def try_bind_def dict_get_def)
qed

lemma analyze_parsed_dict:
  assumes "messages_create E model_name 2000 system_prompt
             (user_prompt E vendor api_name url page hs) = Inr content"
    and "parsed_result E content = Inr (PDict kvs)"
    and "sliceable (dict_get kvs ''reasoning'' (PStr ''N/A''))"
  shows "fst (analyze_with_claude E vendor api_name url page (PList hs)) =
    Inr \<lparr> download_url = dict_get kvs ''download_url'' (PStr []),
          version = dict_get kvs ''version'' PNone,
          format = dict_get kvs ''format'' (PStr ''yaml''),
          versioning_strategy = dict_get kvs ''versioning_strategy'' (PStr ''unknown''),
          github_info = dict_get kvs ''github_info'' PNone,
          confidence = dict_get kvs ''confidence'' (PStr ''low''),
          reasoning = dict_get kvs ''reasoning'' (PStr []) \<rparr>"
  using assms
  by (simp add: analyze_returns read_response_def try_bind_def location_of_dict)

text \<open>The sample world: what the service says, and what the parser makes of a text.\<close>

lemma answering_create:
  "messages_create (answering t) m n s p = Inr [TextBlock t]"
  by (simp add: answering_def world_def)

lemma answering_parsed:
  "strip_fence t = Inr j \<Longrightarrow>
   parsed_result (answering t) [TextBlock t] = table_loads sample_table (strip j)"
  by (simp add: parsed_result_def index_def try_bind_def answering_def world_def)

lemma strip_fence_samples:
  "strip_fence acme_json = Inr acme_json"
  "strip_fence null_reasoning_json = Inr null_reasoning_json"
  "strip_fence xml_json = Inr xml_json"
  "strip_fence owner_only_json = Inr owner_only_json"
  \<open>strip_fence inner_fence_json = Inr ''{}''\<close>
  \<open>strip_fence (fenced_json inner_fence_json) = Inr (newline @ ''{"reasoning":"a'')\<close>
  by code_simp+

lemma strip_samples:
  "strip acme_json = acme_json"
  "strip null_reasoning_json = null_reasoning_json"
  "strip xml_json = xml_json"
  "strip owner_only_json = owner_only_json"
  \<open>strip ''{}'' = ''{}''\<close>
  \<open>strip (newline @ ''{"reasoning":"a'') = ''{"reasoning":"a''\<close>
  by code_simp+

lemma loads_samples:
  "table_loads sample_table acme_json = Inr (PDict acme_dict)"
  "table_loads sample_table null_reasoning_json = Inr (PDict null_reasoning_dict)"
  "table_loads sample_table xml_json = Inr (PDict xml_dict)"
  "table_loads sample_table owner_only_json = Inr (PDict owner_only_dict)"
  \<open>table_loads sample_table ''{}'' = Inr (PDict [])\<close>
  \<open>table_loads sample_table ''{"reasoning":"a'' =
     Inl (Exn ''JSONDecodeError''
            ''Unterminated string starting at: line 1 column 14 (char 13)'')\<close>
  by code_simp+

lemma format_value_create_update:
  "format_value (E\<lparr> messages_create := f \<rparr>) v = format_value E v"
  by (cases v) simp_all

lemma user_prompt_create_update:
  "user_prompt (E\<lparr> messages_create := f \<rparr>) vendor api_name url page hs =
   user_prompt E vendor api_name url page hs"
  by (simp add: user_prompt_def format_value_create_update)

lemma read_text_block:
  "read_response E [TextBlock t] =
    try_bind (strip_fence t) (\<lambda>j. try_bind (json_loads E (strip j)) location_of_result)"
  by (simp add: read_response_def parsed_result_def index_def try_bind_def split: sum.splits)

lemma answering_update:
  "(answering t0)\<lparr> messages_create := (\<lambda>m n s p. Inr [TextBlock t]) \<rparr> = answering t"
  by (simp add: answering_def world_def)




text \<open>
  C2, as stated: the service answers \<open>{"github_info": {"owner": "acme", "repo": ""}}\<close>.
  The returned \<open>github_info\<close> is present, its \<open>repo\<close> is empty and it has no \<open>path\<close>.
\<close>

theorem github_info_counterexample:
  "fst (analyze_with_claude (answering owner_only_json)
         (PStr ''acme'') (PStr ''widgets'') (PStr ''https://docs.acme.test/api'') [] (PList []))
   = Inr \<lparr> download_url = PStr [],
           version = PNone,
           format = PStr ''yaml'',
           versioning_strategy = PStr ''unknown'',
           github_info = PDict [(''owner'', PStr ''acme''), (''repo'', PStr [])],
           confidence = PStr ''low'',
           reasoning = PStr [] \<rparr>"
proof -
  have p: "parsed_result (answering owner_only_json) [TextBlock owner_only_json]
             = Inr (PDict owner_only_dict)"
    by (simp add: answering_parsed [OF strip_fence_samples(4)] strip_samples loads_samples)
  have s: "sliceable (dict_get owner_only_dict ''reasoning'' (PStr ''N/A''))"
    by (simp add: dict_get_def owner_only_dict_def)
  show ?thesis
    using analyze_parsed_dict [OF answering_create p s]
    by (simp add: dict_get_def owner_only_dict_def)
qed

text \<open>
  C2, amended: \<open>github_info\<close> of the returned record is the value that the parsed object
  holds under the key \<open>github_info\<close>, whatever it is, and \<open>None\<close> when the key is missing;
  the record of the \<open>except\<close> branch has \<open>None\<close>.  Nothing checks owner, repo or path.
\<close>

theorem github_info_passed_through:
  assumes "messages_create E model_name 2000 system_prompt
             (user_prompt E vendor api_name url page hs) = Inr content"
    and "parsed_result E content = Inr (PDict kvs)"
    and "sliceable (dict_get kvs ''reasoning'' (PStr ''N/A''))"
  shows "\<exists>location.
    fst (analyze_with_claude E vendor api_name url page (PList hs)) = Inr location \<and>
    github_info location = (case map_of kvs ''github_info'' of None \<Rightarrow> PNone | Some g \<Rightarrow> g) \<and>
    github_info (fallback e) = PNone"
  using analyze_parsed_dict [OF assms] by (simp add: dict_get_def fallback_def)

theorem github_info_passed_through_witness:
  "\<exists>location.
     fst (analyze_with_claude (answering acme_json)
           (PStr ''acme'') (PStr ''widgets'') (PStr ''https://docs.acme.test/api'') []
           (PList [])) = Inr location \<and>
     github_info location =
       PDict [(''owner'', PStr ''acme''), (''repo'', PStr ''widgets-oai''),
              (''path'', PStr ''openapi.yaml'')]"
proof -
  have p: "parsed_result (answering acme_json) [TextBlock acme_json] = Inr (PDict acme_dict)"
    by (simp add: answering_parsed [OF strip_fence_samples(1)] strip_samples loads_samples)
  have s: "sliceable (dict_get acme_dict ''reasoning'' (PStr ''N/A''))"
    by (simp add: dict_get_def acme_dict_def)
  show ?thesis
    using github_info_passed_through [OF answering_create p s,
              where vendor = "PStr ''acme''" and api_name = "PStr ''widgets''"
                and url = "PStr ''https://docs.acme.test/api''" and page = "[]" and hs = "[]"]
    by (auto simp: acme_dict_def acme_github_def)
qed

text \<open>
  C5, at the failing input: the service answers a well-formed object with all seven
  keys, in which \<open>reasoning\<close> is \<open>null\<close>.  Lines 177 to 185 would pass all seven
  values through, \<open>null\<close> included, as they do for \<open>version\<close> and \<open>github_info\<close>.  But
  the progress message of line 175 slices \<open>reasoning\<close> first, the slice raises
  \<open>TypeError\<close>, and \<open>analyze\<close> returns the record of the \<open>except\<close> branch: the
  download URL, the version, the format and the confidence that were parsed are lost.
\<close>

theorem null_reasoning_returns_fallback:
  "map fst null_reasoning_dict =
     [''download_url'', ''version'', ''format'', ''versioning_strategy'', ''github_info'',
      ''confidence'', ''reasoning''] \<and>
   fst (analyze_with_claude (answering null_reasoning_json)
         (PStr ''acme'') (PStr ''widgets'') (PStr ''https://docs.acme.test/api'') [] (PList []))
   = Inr \<lparr> download_url = PStr [],
           version = PNone,
           format = PStr ''yaml'',
           versioning_strategy = PStr ''unknown'',
           github_info = PNone,
           confidence = PStr ''low'',
           reasoning = PStr (''Error during analysis: '' @ [CHR 0x27] @ ''NoneType'' @
                             [CHR 0x27] @ '' object is not subscriptable'') \<rparr>"
proof -
  have p: "parsed_result (answering null_reasoning_json) [TextBlock null_reasoning_json]
             = Inr (PDict null_reasoning_dict)"
    by (simp add: answering_parsed [OF strip_fence_samples(2)] strip_samples loads_samples)
  have l: "location_of_result (PDict null_reasoning_dict) =
             Inl (Exn ''TypeError''
                    ([CHR 0x27] @ ''NoneType'' @ [CHR 0x27] @ '' object is not subscriptable''))"
    by (simp add: location_of_result_def try_bind_def null_reasoning_dict_def)
  have "fst (analyze_with_claude (answering null_reasoning_json)
         (PStr ''acme'') (PStr ''widgets'') (PStr ''https://docs.acme.test/api'') [] (PList []))
        = Inr (fallback (Exn ''TypeError''
                 ([CHR 0x27] @ ''NoneType'' @ [CHR 0x27] @ '' object is not subscriptable'')))"
    by (rule analyze_raised) (simp add: answering_create read_response_def try_bind_def p l)
  then show ?thesis
    by (simp add: fallback_def null_reasoning_dict_def)
qed

lemma analyze_returns_iterable:
  assumes "iterate hints = Inr hs"
  shows "fst (analyze_with_claude E vendor api_name url page hints) =
    Inr (case try_bind
                (messages_create E model_name 2000 system_prompt
                   (user_prompt E vendor api_name url page hs))
                (read_response E) of
           Inl e \<Rightarrow> fallback e
         | Inr location \<Rightarrow> location)"
  using assms by (simp add: analyze_with_claude_def Let_def split: sum.splits)

text \<open>
  C3, as stated: \<open>hints\<close> is the number 5, which the front door passes on as it comes.
  The prompt is built on line 142, before the \<open>try\<close> of line 150, so the \<open>TypeError\<close> of
  iterating a number leaves \<open>analyze\<close>; no call was made by it, and the front door
  answers with status 500 after the fetch.
\<close>

theorem hints_not_iterable_counterexample:
  "analyze_with_claude (answering acme_json)
     (PStr ''acme'') (PStr ''widgets'') (PStr ''https://docs.acme.test/api'') [] (PInt 5)
   = (Inl (Exn ''TypeError'' ([CHR 0x27] @ ''int'' @ [CHR 0x27] @ '' object is not iterable'')),
      []) \<and>
   api_discover_spec (answering acme_json)
     (Inr (PDict [(''vendor'', PStr ''acme''), (''api_name'', PStr ''widgets''),
                  (''documentation_url'', PStr ''https://docs.acme.test/api''),
                  (''hints'', PInt 5)]))
   = ((PDict [(''error'',
         PStr ([CHR 0x27] @ ''int'' @ [CHR 0x27] @ '' object is not iterable''))], 500),
      [GetReq (PStr ''https://docs.acme.test/api'') 30])"
proof -
  have g: "requests_get (answering acme_json) u
             = Inl (Exn ''ConnectionError'' ''connection refused'')" for u
    by (simp add: answering_def world_def unreachable_def)
  have a: "analyze_with_claude E v n u p (PInt 5)
             = (Inl (Exn ''TypeError''
                  ([CHR 0x27] @ ''int'' @ [CHR 0x27] @ '' object is not iterable'')), [])"
    for E v n u p
    by (simp add: analyze_with_claude_def)
  have d: "discover_spec (answering acme_json)
             (PStr ''acme'') (PStr ''widgets'') (PStr ''https://docs.acme.test/api'') (PInt 5)
           = (Inl (Exn ''TypeError''
                ([CHR 0x27] @ ''int'' @ [CHR 0x27] @ '' object is not iterable'')),
              [GetReq (PStr ''https://docs.acme.test/api'') 30])"
    by (simp add: discover_spec_def fetch_documentation_def g a)
  show ?thesis
    by (simp add: a d api_discover_spec_def required_def extract_parameters_def try_bind_def
          error_response_def)
qed

text \<open>
  C3, amended: when \<open>hints\<close> can be iterated (a list, as its annotation says, or a
  string or a dict), \<open>analyze\<close> always returns a record.  When the call of the
  reasoning service raises \<open>e\<close>, when \<open>json.loads\<close> raises \<open>e\<close> on the text taken from
  the first block, or when anything else in the \<open>try\<close> block raises \<open>e\<close>, the record is
  the fallback: empty download URL, confidence \<open>low\<close>, and the reasoning
  \<open>Error during analysis:\<close> followed by \<open>str(e)\<close>.  When \<open>hints\<close> cannot be iterated,
  the exception of building the prompt is raised to the caller before any call is made.
\<close>

theorem analyze_falls_back:
  "(iterate hints = Inr hs \<longrightarrow>
      (\<exists>location. fst (analyze_with_claude E vendor api_name url page hints) = Inr location) \<and>
      (messages_create E model_name 2000 system_prompt
         (user_prompt E vendor api_name url page hs) = Inl e \<longrightarrow>
       fst (analyze_with_claude E vendor api_name url page hints) = Inr (fallback e)) \<and>
      (messages_create E model_name 2000 system_prompt
         (user_prompt E vendor api_name url page hs) = Inr (TextBlock t # rest) \<and>
       strip_fence t = Inr j \<and> json_loads E (strip j) = Inl e \<longrightarrow>
       fst (analyze_with_claude E vendor api_name url page hints) = Inr (fallback e)) \<and>
      (try_bind
         (messages_create E model_name 2000 system_prompt
            (user_prompt E vendor api_name url page hs))
         (read_response E) = Inl e \<longrightarrow>
       fst (analyze_with_claude E vendor api_name url page hints) = Inr (fallback e))) \<and>
   (iterate hints = Inl e \<longrightarrow>
      analyze_with_claude E vendor api_name url page hints = (Inl e, [])) \<and>
   download_url (fallback e) = PStr [] \<and>
   confidence (fallback e) = PStr ''low'' \<and>
   reasoning (fallback e) = PStr (''Error during analysis: '' @ exn_str e)"
proof -
  have "iterate hints = Inl e \<Longrightarrow>
          analyze_with_claude E vendor api_name url page hints = (Inl e, [])"
    by (simp add: analyze_with_claude_def)
  then show ?thesis
    by (auto simp: analyze_returns_iterable read_response_def parsed_result_def index_def
          try_bind_def fallback_def)
qed

theorem analyze_falls_back_witness:
  "fst (analyze_with_claude (world unreachable unreachable unreachable [])
         (PStr ''acme'') (PStr ''widgets'') (PStr ''https://docs.acme.test/api'') [] (PList []))
     = Inr (fallback (Exn ''ConnectionError'' ''connection refused'')) \<and>
   fst (analyze_with_claude (answering ''Sorry, no specification was found.'')
         (PStr ''acme'') (PStr ''widgets'') (PStr ''https://docs.acme.test/api'') [] (PList []))
     = Inr (fallback (Exn ''JSONDecodeError'' ''Expecting value: line 1 column 1 (char 0)'')) \<and>
   analyze_with_claude (answering ''Sorry, no specification was found.'')
     (PStr ''acme'') (PStr ''widgets'') (PStr ''https://docs.acme.test/api'') [] (PBool True)
     = (Inl (Exn ''TypeError''
          ([CHR 0x27] @ ''bool'' @ [CHR 0x27] @ '' object is not iterable'')), []) \<and>
   reasoning (fallback (Exn ''JSONDecodeError'' ''Expecting value: line 1 column 1 (char 0)''))
     = PStr ''Error during analysis: Expecting value: line 1 column 1 (char 0)''"
proof -
  let ?t = "''Sorry, no specification was found.''"
  have c1: "messages_create (world unreachable unreachable unreachable []) m n s p
              = Inl (Exn ''ConnectionError'' ''connection refused'')" for m n s p
    by (simp add: world_def unreachable_def)
  have sf: "strip_fence ?t = Inr ?t"
    by code_simp
  have st: "strip ?t = ?t"
    by code_simp
  have ld: "json_loads (answering ?t) (strip ?t)
              = Inl (Exn ''JSONDecodeError'' ''Expecting value: line 1 column 1 (char 0)'')"
    unfolding st by (simp add: answering_def world_def table_loads_def sample_table_def
        acme_json_def null_reasoning_json_def xml_json_def owner_only_json_def
        inner_fence_json_def)
  show ?thesis
    using analyze_falls_back
            [of "PList []" "[]" "world unreachable unreachable unreachable []"
                "PStr ''acme''" "PStr ''widgets''" "PStr ''https://docs.acme.test/api''" "[]"
                "Exn ''ConnectionError'' ''connection refused''"]
          analyze_falls_back
            [of "PList []" "[]" "answering ?t"
                "PStr ''acme''" "PStr ''widgets''" "PStr ''https://docs.acme.test/api''" "[]"
                "Exn ''JSONDecodeError'' ''Expecting value: line 1 column 1 (char 0)''"
                ?t "[]" ?t]
          analyze_falls_back
            [of "PBool True" _ "answering ?t"
                "PStr ''acme''" "PStr ''widgets''" "PStr ''https://docs.acme.test/api''" "[]"
                "Exn ''TypeError''
                   ([CHR 0x27] @ ''bool'' @ [CHR 0x27] @ '' object is not iterable'')"]
    by (simp add: c1 answering_create sf ld)
qed

text \<open>
  C7, as stated: the JSON object \<open>{"reasoning":"a```{}```b"}\<close> holds a fence inside a
  string.  Wrapped in a fenced block, the text is cut at the inner fence, \<open>json.loads\<close>
  raises and the fallback is returned; unwrapped, the piece between the inner fences is
  parsed and a record of defaults is returned.
\<close>

theorem inner_fence_counterexample:
  "fst (analyze_with_claude (answering (fenced_json inner_fence_json))
         (PStr ''acme'') (PStr ''widgets'') (PStr ''https://docs.acme.test/api'') [] (PList []))
     = Inr (fallback (Exn ''JSONDecodeError''
              ''Unterminated string starting at: line 1 column 14 (char 13)'')) \<and>
   fst (analyze_with_claude (answering inner_fence_json)
         (PStr ''acme'') (PStr ''widgets'') (PStr ''https://docs.acme.test/api'') [] (PList []))
     = Inr \<lparr> download_url = PStr [],
             version = PNone,
             format = PStr ''yaml'',
             versioning_strategy = PStr ''unknown'',
             github_info = PNone,
             confidence = PStr ''low'',
             reasoning = PStr [] \<rparr>"
proof -
  have p1: "parsed_result (answering (fenced_json inner_fence_json))
              [TextBlock (fenced_json inner_fence_json)]
            = Inl (Exn ''JSONDecodeError''
                ''Unterminated string starting at: line 1 column 14 (char 13)'')"
    by (simp add: answering_parsed [OF strip_fence_samples(6)] strip_samples loads_samples)
  have a1: "fst (analyze_with_claude (answering (fenced_json inner_fence_json))
         (PStr ''acme'') (PStr ''widgets'') (PStr ''https://docs.acme.test/api'') [] (PList []))
     = Inr (fallback (Exn ''JSONDecodeError''
              ''Unterminated string starting at: line 1 column 14 (char 13)''))"
    by (rule analyze_raised) (simp add: answering_create read_response_def try_bind_def p1)
  have p2: "parsed_result (answering inner_fence_json) [TextBlock inner_fence_json]
              = Inr (PDict [])"
    by (simp add: answering_parsed [OF strip_fence_samples(5)] strip_samples loads_samples)
  have s2: "sliceable (dict_get [] ''reasoning'' (PStr ''N/A''))"
    by (simp add: dict_get_def)
  show ?thesis
    using a1 analyze_parsed_dict [OF answering_create p2 s2]
    by (simp add: dict_get_def)
qed

text \<open>
  C7, amended: for every text \<open>j\<close> in which no triple backtick occurs, the answer that
  wraps \<open>j\<close> in a fenced block, tagged \<open>json\<close> or untagged, gives the same result and the
  same calls as the answer \<open>j\<close> itself.
\<close>

theorem fenced_response_same_as_unwrapped:
  assumes "\<not> contains fence j"
  shows
    "analyze_with_claude
       (E\<lparr> messages_create := (\<lambda>m n s p. Inr [TextBlock (fenced_json j)]) \<rparr>)
       vendor api_name url page hints
     = analyze_with_claude
       (E\<lparr> messages_create := (\<lambda>m n s p. Inr [TextBlock j]) \<rparr>)
       vendor api_name url page hints \<and>
     analyze_with_claude
       (E\<lparr> messages_create := (\<lambda>m n s p. Inr [TextBlock (fenced_plain j)]) \<rparr>)
       vendor api_name url page hints
     = analyze_with_claude
       (E\<lparr> messages_create := (\<lambda>m n s p. Inr [TextBlock j]) \<rparr>)
       vendor api_name url page hints"
proof (cases "iterate hints")
  case (Inl e)
  then show ?thesis
    by (simp add: analyze_with_claude_def)
next
  case (Inr hint_list)
  with assms show ?thesis
    by (simp add: analyze_with_claude_def Let_def user_prompt_create_update read_text_block
          try_bind_def strip_fence_fenced_json strip_fence_fenced_plain strip_fence_unwrapped
          strip_between_newlines)
qed

theorem fenced_response_same_as_unwrapped_witness:
  "\<not> contains fence acme_json \<and>
   analyze_with_claude (answering (fenced_json acme_json))
     (PStr ''acme'') (PStr ''widgets'') (PStr ''https://docs.acme.test/api'') [] (PList [])
   = analyze_with_claude (answering acme_json)
     (PStr ''acme'') (PStr ''widgets'') (PStr ''https://docs.acme.test/api'') [] (PList []) \<and>
   analyze_with_claude (answering (fenced_plain acme_json))
     (PStr ''acme'') (PStr ''widgets'') (PStr ''https://docs.acme.test/api'') [] (PList [])
   = analyze_with_claude (answering acme_json)
     (PStr ''acme'') (PStr ''widgets'') (PStr ''https://docs.acme.test/api'') [] (PList [])"
proof -
  have n: "\<not> contains fence acme_json"
    by code_simp
  show ?thesis
    using n fenced_response_same_as_unwrapped [OF n, of "answering []"]
    by (simp add: answering_update)
qed

section \<open>The fetcher\<close>

text \<open>
  C6, as stated: the retrieval ends with status 300, which is not a 2xx status.
  \<open>raise_for_status\<close> of \<open>requests\<close> raises for the statuses 400 to 599 only, so nothing
  is raised and \<open>fetch\<close> returns the body of the response, not the empty string.
\<close>

theorem fetch_status_300_counterexample:
  "\<not> success_status 300 \<and>
   fetch_documentation
     (world unreachable (reply 300 ''<html>Multiple Choices</html>'') unreachable [])
     (PStr ''https://docs.acme.test/api'')
   = (''<html>Multiple Choices</html>'', [GetReq (PStr ''https://docs.acme.test/api'') 30])"
  by (simp add: success_status_def fetch_documentation_def world_def reply_def http_error_def)

text \<open>
  C6, amended: \<open>fetch\<close> makes one retrieval with a timeout of 30 seconds and never
  raises.  With \<open>raise_for_status\<close> raising exactly for the statuses 400 to 599, as
  \<open>requests\<close> does: when the retrieval raises (timeout, DNS, connection) or ends with a
  status from 400 to 599, the result is the empty string; when it ends with any other
  status, 2xx or not, the result is the first 100000 characters of the body.  The
  result is never longer than 100000 characters.
\<close>

theorem fetch_documentation_fail_soft:
  assumes "\<And>x. (raise_for_status E x \<noteq> None) = (400 \<le> status_code x \<and> status_code x < 600)"
  shows
    "(requests_get E url = Inl e \<longrightarrow> fetch_documentation E url = ([], [GetReq url 30])) \<and>
     (requests_get E url = Inr r \<and> 400 \<le> status_code r \<and> status_code r < 600 \<longrightarrow>
        fetch_documentation E url = ([], [GetReq url 30])) \<and>
     (requests_get E url = Inr r \<and> \<not> (400 \<le> status_code r \<and> status_code r < 600) \<longrightarrow>
        fetch_documentation E url = (take 100000 (body_text r), [GetReq url 30])) \<and>
     length (fst (fetch_documentation E url)) \<le> 100000"
proof -
  have "raise_for_status E r = None \<longleftrightarrow> \<not> (400 \<le> status_code r \<and> status_code r < 600)"
    using assms [of r] by blast
  then show ?thesis
    by (auto simp: fetch_documentation_def split: sum.splits option.splits)
qed

theorem fetch_documentation_fail_soft_witness:
  "fetch_documentation (world unreachable unreachable unreachable [])
     (PStr ''https://docs.acme.test/api'')
     = ([], [GetReq (PStr ''https://docs.acme.test/api'') 30]) \<and>
   fetch_documentation (world unreachable (reply 404 ''<html>Not Found</html>'') unreachable [])
     (PStr ''https://docs.acme.test/api'')
     = ([], [GetReq (PStr ''https://docs.acme.test/api'') 30]) \<and>
   fetch_documentation (world unreachable (reply 200 ''<html>docs</html>'') unreachable [])
     (PStr ''https://docs.acme.test/api'')
     = (''<html>docs</html>'', [GetReq (PStr ''https://docs.acme.test/api'') 30])"
proof -
  let ?u = "PStr ''https://docs.acme.test/api''"
  have g1: "requests_get (world unreachable unreachable unreachable []) ?u
              = Inl (Exn ''ConnectionError'' ''connection refused'')"
    by (simp add: world_def unreachable_def)
  have g2: "requests_get (world h (reply s b) k t) ?u = Inr \<lparr> status_code = s, body_text = b \<rparr>"
    for h s b k t by (simp add: world_def reply_def)
  have r: "(raise_for_status (world h g k t) x \<noteq> None)
             = (400 \<le> status_code x \<and> status_code x < 600)" for h g k t x
    by (simp add: world_def http_error_def)
  show ?thesis
    using fetch_documentation_fail_soft
            [of "world unreachable unreachable unreachable []" ?u
                "Exn ''ConnectionError'' ''connection refused''", OF r]
          fetch_documentation_fail_soft
            [of "world unreachable (reply 404 ''<html>Not Found</html>'') unreachable []" ?u _
                "\<lparr> status_code = 404, body_text = ''<html>Not Found</html>'' \<rparr>", OF r]
          fetch_documentation_fail_soft
            [of "world unreachable (reply 200 ''<html>docs</html>'') unreachable []" ?u _
                "\<lparr> status_code = 200, body_text = ''<html>docs</html>'' \<rparr>", OF r]
    by (simp add: g1 g2)
qed

section \<open>The front door\<close>




end
